theory Spec2Isabelle
  imports Main
begin

section \<open>Python values, dictionaries and results\<close>

text \<open>
  The source registry of the log collector (\<^verbatim>\<open>log_collector/source_manager.py\<close>) keeps
  plain dictionaries. A source dictionary maps field names to Python values; the values
  modelled here are the scalars a configuration file or the interactive menu can put
  there: \<^verbatim>\<open>None\<close>, booleans, integers and strings (floats and containers are left out).
  Strings are lists of 8-bit characters.
\<close>

datatype pyval = PNone | PBool bool | PInt int | PStr string

type_synonym source_data = "string \<rightharpoonup> pyval"

type_synonym registry = "string \<rightharpoonup> source_data"

text \<open>Exceptions that escape a function are the left summand of its result.\<close>

datatype py_error = TypeError | KeyError | OSError

text \<open>
  \<^verbatim>\<open>{"valid": True}\<close> and \<^verbatim>\<open>{"valid": False, "error": e}\<close>, the two dictionaries
  \<^verbatim>\<open>validate_source\<close> returns.
\<close>

datatype validation = Valid | Invalid string

text \<open>
  \<^verbatim>\<open>{"success": True, "source_id": id}\<close>, \<^verbatim>\<open>{"success": True}\<close> and
  \<^verbatim>\<open>{"success": False, "error": e}\<close>, the dictionaries the mutating operations return.
\<close>

datatype op_result = SuccessId string | Success | Failure string

section \<open>Built-ins: \<^verbatim>\<open>str\<close> and \<^verbatim>\<open>int\<close>\<close>

fun str_nat :: "nat \<Rightarrow> string" where
  "str_nat n =
     (if n < 10 then [''0123456789'' ! n]
      else str_nat (n div 10) @ [''0123456789'' ! (n mod 10)])"

declare str_nat.simps [simp del]

definition str_int :: "int \<Rightarrow> string" where
  "str_int i = (if i < 0 then CHR ''-'' # str_nat (nat (- i)) else str_nat (nat i))"

text \<open>What an f-string puts in place of \<^verbatim>\<open>{v}\<close>.\<close>

fun py_str :: "pyval \<Rightarrow> string" where
  "py_str PNone = ''None''"
| "py_str (PBool b) = (if b then ''True'' else ''False'')"
| "py_str (PInt i) = str_int i"
| "py_str (PStr s) = s"

text \<open>
  \<^verbatim>\<open>int(v)\<close>: an integer is returned as it is, a boolean as 0 or 1, a string is parsed in
  base 10, and \<^verbatim>\<open>None\<close> raises \<^verbatim>\<open>TypeError\<close>. A string is accepted when, after the
  surrounding whitespace is dropped, it is an optional sign followed by decimal digits,
  where single underscores may separate digits; anything else raises \<^verbatim>\<open>ValueError\<close>.
  The whitespace \<^verbatim>\<open>int\<close> skips is the space, the characters 0x09 to 0x0D and, beyond
  ASCII, 0x85 and 0xA0; the separators 0x1C to 0x1F are not skipped. A string with more
  digits than the interpreter's limit, 4300 unless reconfigured, raises \<^verbatim>\<open>ValueError\<close>
  as well.
\<close>

definition is_space :: "char \<Rightarrow> bool" where
  "is_space c \<longleftrightarrow>
     c \<in> set [CHR '' '', CHR 0x09, CHR 0x0A, CHR 0x0B, CHR 0x0C, CHR 0x0D,
              CHR 0x85, CHR 0xA0]"

definition strip :: "string \<Rightarrow> string" where
  "strip s = rev (dropWhile is_space (rev (dropWhile is_space s)))"

definition is_digit :: "char \<Rightarrow> bool" where
  "is_digit c \<longleftrightarrow> c \<in> set ''0123456789''"

definition digit_val :: "char \<Rightarrow> nat" where
  "digit_val c = of_char c - 48"

fun digits_val :: "nat \<Rightarrow> string \<Rightarrow> nat option" where
  "digits_val acc [] = Some acc"
| "digits_val acc [c] = (if is_digit c then Some (10 * acc + digit_val c) else None)"
| "digits_val acc (c # d # ds) =
     (if is_digit c then digits_val (10 * acc + digit_val c) (d # ds)
      else if c = CHR ''_'' \<and> is_digit d then digits_val (10 * acc + digit_val d) ds
      else None)"

definition parse_digits :: "string \<Rightarrow> nat option" where
  "parse_digits s =
     (case s of
        [] \<Rightarrow> None
      | c # cs \<Rightarrow> if is_digit c then digits_val (digit_val c) cs else None)"

definition parse_int :: "string \<Rightarrow> int option" where
  "parse_int s =
     (case strip s of
        [] \<Rightarrow> None
      | c # cs \<Rightarrow>
          if c = CHR ''-'' then map_option (\<lambda>n. - int n) (parse_digits cs)
          else if c = CHR ''+'' then map_option int (parse_digits cs)
          else map_option int (parse_digits (c # cs)))"

text \<open>The default of \<^verbatim>\<open>sys.get_int_max_str_digits()\<close>.\<close>

definition int_max_str_digits :: nat where
  "int_max_str_digits = 4300"

definition exceeds_digit_limit :: "string \<Rightarrow> bool" where
  "exceeds_digit_limit s \<longleftrightarrow> int_max_str_digits < length (filter is_digit s)"

datatype int_result = IntOk int | IntValueError | IntTypeError

fun py_int :: "pyval \<Rightarrow> int_result" where
  "py_int PNone = IntTypeError"
| "py_int (PBool b) = IntOk (if b then 1 else 0)"
| "py_int (PInt i) = IntOk i"
| "py_int (PStr s) =
     (case parse_int s of
        None \<Rightarrow> IntValueError
      | Some i \<Rightarrow> if exceeds_digit_limit s then IntValueError else IntOk i)"

section \<open>The environment of the registry\<close>

text \<open>
  The connection test of \<^verbatim>\<open>validate_source\<close> posts one event; the record holds what the
  call to \<^verbatim>\<open>requests.post\<close> is given.
\<close>

record hec_request =
  req_url :: pyval
  req_authorization :: string
  req_content_type :: string
  req_event_time :: int
  req_event_message :: string
  req_event_source :: pyval
  req_timeout :: nat

text \<open>The post returns a response with a status code or raises an exception with a message.\<close>

datatype http_outcome = HttpResponse int | HttpException string

text \<open>
  Everything \<^verbatim>\<open>source_manager.py\<close> takes from outside itself: the three constants it
  imports from \<^verbatim>\<open>log_collector.config\<close>, the identifier \<^verbatim>\<open>uuid.uuid4()\<close> produces, the
  clock, the file system (whether a path exists, where \<^verbatim>\<open>Path.exists\<close> lets an
  operating-system error other than "not found" escape; and the message of the exception
  that \<^verbatim>\<open>os.makedirs\<close> or the write test raises, if any), the HTTP endpoint, and
  \<^verbatim>\<open>save_sources\<close>, which reports whether the registry could be written to disk.
\<close>

record env =
  DEFAULT_UDP_PROTOCOL :: pyval
  DEFAULT_HEC_BATCH_SIZE :: pyval
  DEFAULT_FOLDER_BATCH_SIZE :: pyval
  uuid4 :: string
  time_now :: int
  path_exists :: "string \<Rightarrow> py_error + bool"
  makedirs :: "string \<Rightarrow> string option"
  write_test :: "string \<Rightarrow> string option"
  requests_post :: "hec_request \<Rightarrow> http_outcome"
  save_sources :: "registry \<Rightarrow> bool"

section \<open>\<^verbatim>\<open>SourceManager\<close>\<close>

definition get_sources :: "registry \<Rightarrow> registry" where
  "get_sources sources = sources"

definition get_source :: "registry \<Rightarrow> string \<Rightarrow> source_data option" where
  "get_source sources source_id = sources source_id"

subsection \<open>\<^verbatim>\<open>validate_source\<close>\<close>

definition required_fields :: "string list" where
  "required_fields = [''source_name'', ''source_ip'', ''listener_port'', ''target_type'']"

text \<open>The first required field the dictionary lacks, in the order of the list.\<close>

definition missing_field :: "source_data \<Rightarrow> string option" where
  "missing_field sd = find (\<lambda>field. sd field = None) required_fields"

text \<open>The folder branch: the path must be creatable and writable.\<close>

definition validate_folder :: "env \<Rightarrow> source_data \<Rightarrow> py_error + validation" where
  "validate_folder e sd =
     (case sd ''folder_path'' of
        None \<Rightarrow> Inr (Invalid ''Folder path is required for Folder target'')
      | Some (PStr folder_path) \<Rightarrow>
          (case path_exists e folder_path of
             Inl err \<Rightarrow> Inl err
           | Inr exists \<Rightarrow>
               (case (if \<not> exists then makedirs e folder_path else None) of
                  Some msg \<Rightarrow> Inr (Invalid (''Could not create folder path: '' @ msg))
                | None \<Rightarrow>
                    (case write_test e folder_path of
                       Some msg \<Rightarrow> Inr (Invalid (''Folder is not writable: '' @ msg))
                     | None \<Rightarrow> Inr Valid)))
      | Some _ \<Rightarrow> Inl TypeError)"

text \<open>
  The HEC branch: URL and token must be there, and a test event must be accepted. Whatever
  is raised while the event is built and posted is caught and reported as a failed test;
  the message of a \<^verbatim>\<open>KeyError\<close> is the key in quotes.
\<close>

definition test_event :: "env \<Rightarrow> pyval \<Rightarrow> pyval \<Rightarrow> pyval \<Rightarrow> hec_request" where
  "test_event e source_name url token =
     \<lparr> req_url = url,
       req_authorization = ''Bearer '' @ py_str token,
       req_content_type = ''text/plain; charset=utf-8'',
       req_event_time = time_now e,
       req_event_message = ''Source Check - OK'',
       req_event_source = source_name,
       req_timeout = 10 \<rparr>"

definition validate_hec :: "env \<Rightarrow> source_data \<Rightarrow> py_error + validation" where
  "validate_hec e sd =
     (case sd ''hec_url'' of
        None \<Rightarrow> Inr (Invalid ''HEC URL is required for HEC Connector target'')
      | Some url \<Rightarrow>
          (case sd ''hec_token'' of
             None \<Rightarrow> Inr (Invalid ''HEC token is required for HEC Connector target'')
           | Some token \<Rightarrow>
               (case sd ''source_name'' of
                  None \<Rightarrow>
                    Inr (Invalid (''HEC connection test failed: ''
                                  @ [CHR 0x27] @ ''source_name'' @ [CHR 0x27]))
                | Some source_name \<Rightarrow>
                    (case requests_post e (test_event e source_name url token) of
                       HttpException msg \<Rightarrow>
                         Inr (Invalid (''HEC connection test failed: '' @ msg))
                     | HttpResponse status_code \<Rightarrow>
                         if status_code \<noteq> 200
                         then Inr (Invalid (''HEC connection test failed with status code: ''
                                             @ str_int status_code))
                         else Inr Valid))))"

definition validate_target :: "env \<Rightarrow> source_data \<Rightarrow> py_error + validation" where
  "validate_target e sd =
     (if sd ''target_type'' = Some (PStr ''Folder'') then validate_folder e sd
      else if sd ''target_type'' = Some (PStr ''HEC'') then validate_hec e sd
      else Inr (Invalid ''Target type must be either Folder or HEC''))"

definition validate_protocol :: "env \<Rightarrow> source_data \<Rightarrow> py_error + validation" where
  "validate_protocol e sd =
     (if sd ''protocol'' \<notin> set [Some (PStr ''UDP''), Some (PStr ''TCP'')]
      then Inr (Invalid ''Protocol must be either UDP or TCP'')
      else validate_target e sd)"

definition validate_port :: "env \<Rightarrow> source_data \<Rightarrow> py_error + validation" where
  "validate_port e sd =
     (case sd ''listener_port'' of
        None \<Rightarrow> Inl KeyError
      | Some v \<Rightarrow>
          (case py_int v of
             IntTypeError \<Rightarrow> Inl TypeError
           | IntValueError \<Rightarrow> Inr (Invalid ''Listener port must be a valid number'')
           | IntOk port \<Rightarrow>
               if port < 1 \<or> port > 65535
               then Inr (Invalid ''Listener port must be between 1 and 65535'')
               else validate_protocol e sd))"

definition validate_source :: "env \<Rightarrow> source_data \<Rightarrow> py_error + validation" where
  "validate_source e sd =
     (case missing_field sd of
        Some field \<Rightarrow> Inr (Invalid (''Missing required field: '' @ field))
      | None \<Rightarrow> validate_port e sd)"

subsection \<open>\<^verbatim>\<open>add_source\<close> and \<^verbatim>\<open>update_source\<close>\<close>

text \<open>
  The defaults \<^verbatim>\<open>add_source\<close> writes into the dictionary it is given, before validating.
\<close>

definition set_default_protocol :: "env \<Rightarrow> source_data \<Rightarrow> source_data" where
  "set_default_protocol e sd =
     (if sd ''protocol'' = None then sd(''protocol'' \<mapsto> DEFAULT_UDP_PROTOCOL e) else sd)"

definition set_default_batch_size :: "env \<Rightarrow> source_data \<Rightarrow> source_data" where
  "set_default_batch_size e sd =
     (if sd ''target_type'' = Some (PStr ''HEC'') \<and> sd ''batch_size'' = None
      then sd(''batch_size'' \<mapsto> DEFAULT_HEC_BATCH_SIZE e)
      else if sd ''target_type'' = Some (PStr ''Folder'') \<and> sd ''batch_size'' = None
      then sd(''batch_size'' \<mapsto> DEFAULT_FOLDER_BATCH_SIZE e)
      else sd)"

definition set_defaults :: "env \<Rightarrow> source_data \<Rightarrow> source_data" where
  "set_defaults e sd = set_default_batch_size e (set_default_protocol e sd)"

text \<open>
  The operations return their result (or the exception that escaped) together with the
  registry's in-memory map as they leave it.
\<close>

definition add_source ::
  "env \<Rightarrow> registry \<Rightarrow> source_data \<Rightarrow> (py_error + op_result) \<times> registry" where
  "add_source e sources sd0 =
     (let source_id = uuid4 e;
          sd = set_defaults e sd0
      in case validate_source e sd of
           Inl err \<Rightarrow> (Inl err, sources)
         | Inr (Invalid msg) \<Rightarrow> (Inr (Failure msg), sources)
         | Inr Valid \<Rightarrow>
             (let sources' = sources(source_id \<mapsto> sd)
              in if save_sources e sources'
                 then (Inr (SuccessId source_id), sources')
                 else (Inr (Failure ''Failed to save source configuration''), sources')))"

definition update_source ::
  "env \<Rightarrow> registry \<Rightarrow> string \<Rightarrow> source_data \<Rightarrow> (py_error + op_result) \<times> registry" where
  "update_source e sources source_id updated_data =
     (case sources source_id of
        None \<Rightarrow>
          (Inr (Failure (''Source with ID '' @ source_id @ '' does not exist'')), sources)
      | Some existing \<Rightarrow>
          (let sd = existing ++ updated_data
           in case validate_source e sd of
                Inl err \<Rightarrow> (Inl err, sources)
              | Inr (Invalid msg) \<Rightarrow> (Inr (Failure msg), sources)
              | Inr Valid \<Rightarrow>
                  (let sources' = sources(source_id \<mapsto> sd)
                   in if save_sources e sources'
                      then (Inr Success, sources')
                      else (Inr (Failure ''Failed to save source configuration''),
                            sources'))))"

section \<open>The interactive menu (\<^verbatim>\<open>log_collector/cli.py\<close>)\<close>

text \<open>The colour codes of \<^verbatim>\<open>colorama\<close> that the menu writes around its text.\<close>

definition Fore_CYAN :: string where
  "Fore_CYAN = CHR 0x1B # ''[36m''"

definition Fore_RED :: string where
  "Fore_RED = CHR 0x1B # ''[31m''"

definition RESET_ALL :: string where
  "RESET_ALL = CHR 0x1B # ''[0m''"

text \<open>
  A screen is a sequence of \<^verbatim>\<open>print\<close> calls. Formatting the argument of a call may raise
  (a missing key); the calls before it have been written by then.
\<close>

definition getitem :: "source_data \<Rightarrow> string \<Rightarrow> py_error + pyval" where
  "getitem d k = (case d k of None \<Rightarrow> Inl KeyError | Some v \<Rightarrow> Inr v)"

definition print_field :: "string \<Rightarrow> source_data \<Rightarrow> string \<Rightarrow> string \<Rightarrow> py_error + string" where
  "print_field before d k after =
     (case getitem d k of Inl err \<Rightarrow> Inl err | Inr v \<Rightarrow> Inr (before @ py_str v @ after))"

fun run_prints :: "(py_error + string) list \<Rightarrow> string list \<times> py_error option" where
  "run_prints [] = ([], None)"
| "run_prints (Inl err # ps) = ([], Some err)"
| "run_prints (Inr s # ps) = (case run_prints ps of (out, r) \<Rightarrow> (s # out, r))"

definition print_header :: "(py_error + string) list" where
  "print_header =
     [Inr (Fore_CYAN @ ''======================================''),
      Inr ''         LOG COLLECTOR'',
      Inr ''======================================'',
      Inr (''Version: 1.0.0'' @ RESET_ALL),
      Inr []]"

subsection \<open>The detail view of a source (\<^verbatim>\<open>_manage_source\<close>)\<close>

definition target_prints :: "source_data \<Rightarrow> (py_error + string) list" where
  "target_prints source =
     (if source ''target_type'' = Some (PStr ''FOLDER'')
      then [print_field ''Folder Path: '' source ''folder_path'' []]
      else if source ''target_type'' = Some (PStr ''HEC'')
      then [print_field ''HEC URL: '' source ''hec_url'' [],
            Inr (''HEC Token: '' @ replicate 10 CHR ''*'')]
      else [])"

definition manage_source_prints :: "string \<Rightarrow> source_data \<Rightarrow> (py_error + string) list" where
  "manage_source_prints source_id source =
     [print_field (Fore_CYAN @ ''=== Manage Source: '') source ''source_name''
        ('' ==='' @ RESET_ALL),
      Inr (CHR 0x0A # ''Source ID: '' @ source_id),
      print_field ''Source Name: '' source ''source_name'' [],
      print_field ''Source IP: '' source ''source_ip'' [],
      print_field ''Listener Port: '' source ''listener_port'' [],
      print_field ''Protocol: '' source ''protocol'' [],
      print_field ''Target Type: '' source ''target_type'' []]
     @ target_prints source
     @ [Inr (''Batch Size: ''
             @ (case source ''batch_size'' of None \<Rightarrow> ''Default'' | Some v \<Rightarrow> py_str v)),
        Inr (CHR 0x0A # ''Options:''),
        Inr ''1. Edit Source'',
        Inr ''2. Delete Source'',
        Inr ''3. Return to Sources List'']"

text \<open>What one pass of the loop writes before it asks for a choice.\<close>

definition manage_source_view :: "registry \<Rightarrow> string \<Rightarrow> string list \<times> py_error option" where
  "manage_source_view sources source_id =
     (case get_source sources source_id of
        None \<Rightarrow> run_prints (print_header @ [Inr (Fore_RED @ ''Source not found.'' @ RESET_ALL)])
      | Some source \<Rightarrow>
          if dom source = {}
          then run_prints (print_header @ [Inr (Fore_RED @ ''Source not found.'' @ RESET_ALL)])
          else run_prints (print_header @ manage_source_prints source_id source))"

subsection \<open>The health-check screens\<close>

text \<open>
  The health-check object the menu is given: its configuration, a dictionary with the
  keys \<^verbatim>\<open>hec_url\<close>, \<^verbatim>\<open>hec_token\<close> and \<^verbatim>\<open>interval\<close>, or nothing when it has not been
  configured, and its running flag.
\<close>

record health_check =
  config :: "source_data option"
  running :: bool

definition configure_health_check_prints :: "health_check \<Rightarrow> (py_error + string) list" where
  "configure_health_check_prints hc =
     (case config hc of
        Some cfg \<Rightarrow>
          [Inr (CHR 0x0A # ''Current Configuration:''),
           print_field ''HEC URL: '' cfg ''hec_url'' [],
           Inr (''HEC Token: '' @ replicate 10 CHR ''*''),
           print_field ''Interval: '' cfg ''interval'' '' seconds'',
           Inr (''Status: '' @ (if running hc then ''Running'' else ''Stopped'')),
           Inr (CHR 0x0A # ''Options:''),
           Inr ''1. Update Configuration'',
           Inr ''2. Start/Stop Health Check'',
           Inr ''3. Return to Main Menu'']
      | None \<Rightarrow>
          [Inr ''Health check is not configured.'',
           Inr (CHR 0x0A # ''Options:''),
           Inr ''1. Configure Health Check'',
           Inr ''2. Return to Main Menu''])"

definition configure_health_check_view :: "health_check \<Rightarrow> string list \<times> py_error option" where
  "configure_health_check_view hc =
     run_prints (print_header
                 @ [Inr (Fore_CYAN @ ''=== Health Check Configuration ==='' @ RESET_ALL)]
                 @ configure_health_check_prints hc)"

text \<open>
  \<^verbatim>\<open>_update_health_check\<close> asks for the URL, the token and the interval in turn, each
  prompt showing the current value in brackets; the first two leave the brackets out when
  the current value is empty.
\<close>

fun truthy :: "pyval \<Rightarrow> bool" where
  "truthy PNone = False"
| "truthy (PBool b) = b"
| "truthy (PInt i) = (i \<noteq> 0)"
| "truthy (PStr s) = (s \<noteq> [])"

definition bracketed :: "pyval \<Rightarrow> string" where
  "bracketed current = (if truthy current then ''['' @ py_str current @ '']'' else [])"

definition hec_url_prompt :: "pyval \<Rightarrow> string" where
  "hec_url_prompt current_url = ''HEC URL '' @ bracketed current_url @ '': ''"

definition hec_token_prompt :: "pyval \<Rightarrow> string" where
  "hec_token_prompt current_token = ''HEC Token '' @ bracketed current_token @ '': ''"

definition interval_prompt :: "pyval \<Rightarrow> string" where
  "interval_prompt current_interval =
     ''Check Interval in seconds ['' @ py_str current_interval @ '']: ''"

text \<open>
  The three prompts of a run, given the health-check object and the constant
  \<^verbatim>\<open>DEFAULT_HEALTH_CHECK_INTERVAL\<close> of \<^verbatim>\<open>log_collector.config\<close>.
\<close>

definition update_health_check_prompts :: "health_check \<Rightarrow> pyval \<Rightarrow> py_error + string list" where
  "update_health_check_prompts hc default_interval =
     (case config hc of
        None \<Rightarrow>
          Inr [hec_url_prompt (PStr []), hec_token_prompt (PStr []),
               interval_prompt default_interval]
      | Some cfg \<Rightarrow>
          (case getitem cfg ''hec_url'' of
             Inl err \<Rightarrow> Inl err
           | Inr current_url \<Rightarrow>
               (case getitem cfg ''hec_token'' of
                  Inl err \<Rightarrow> Inl err
                | Inr current_token \<Rightarrow>
                    (case getitem cfg ''interval'' of
                       Inl err \<Rightarrow> Inl err
                     | Inr current_interval \<Rightarrow>
                         Inr [hec_url_prompt current_url, hec_token_prompt current_token,
                              interval_prompt current_interval]))))"

subsection \<open>The address prompts of \<^verbatim>\<open>_add_source\<close> and \<^verbatim>\<open>_edit_source\<close>\<close>

text \<open>
  Both flows collect the addresses of the sources in the registry (the edit flow leaves
  the edited source out) and ask until the answer is not among them and is a dotted quad
  with octets up to 255. The pattern is \<^verbatim>\<open>^(\d{1,3})\.(\d{1,3})\.(\d{1,3})\.(\d{1,3})$\<close>,
  whose \<^verbatim>\<open>$\<close> also matches before a final newline.
\<close>

definition existing_ips :: "registry \<Rightarrow> py_error + pyval set" where
  "existing_ips sources =
     (if None \<in> (\<lambda>src. src ''source_ip'') ` ran sources then Inl KeyError
      else Inr {ip. \<exists>src. src \<in> ran sources \<and> src ''source_ip'' = Some ip})"

definition existing_ips_except :: "registry \<Rightarrow> string \<Rightarrow> py_error + pyval set" where
  "existing_ips_except sources source_id = existing_ips (sources(source_id := None))"

fun split_on :: "char \<Rightarrow> string \<Rightarrow> string list" where
  "split_on sep [] = [[]]"
| "split_on sep (c # cs) =
     (if c = sep then [] # split_on sep cs
      else (case split_on sep cs of [] \<Rightarrow> [[c]] | g # gs \<Rightarrow> (c # g) # gs))"

definition octet_digits :: "string \<Rightarrow> bool" where
  "octet_digits g \<longleftrightarrow> 1 \<le> length g \<and> length g \<le> 3 \<and> list_all is_digit g"

definition matches_ip_pattern :: "string \<Rightarrow> bool" where
  "matches_ip_pattern s =
     (let t = (if s \<noteq> [] \<and> last s = CHR 0x0A then butlast s else s);
          groups = split_on CHR ''.'' t
      in length groups = 4 \<and> list_all octet_digits groups)"

definition octet_ok :: "string \<Rightarrow> bool" where
  "octet_ok g = (case py_int (PStr g) of IntOk n \<Rightarrow> 0 \<le> n \<and> n \<le> 255 | _ \<Rightarrow> False)"

definition ipv4_ok :: "string \<Rightarrow> bool" where
  "ipv4_ok s \<longleftrightarrow> matches_ip_pattern s \<and> list_all octet_ok (split_on CHR ''.'' s)"

datatype ip_answer = Ip_in_use | Ip_accepted | Ip_invalid | Ip_kept

text \<open>One pass of the loop of \<^verbatim>\<open>_add_source\<close>, on the answer typed.\<close>

definition add_source_ip_step :: "pyval set \<Rightarrow> string \<Rightarrow> ip_answer" where
  "add_source_ip_step ips ip =
     (if PStr ip \<in> ips then Ip_in_use
      else if ipv4_ok ip then Ip_accepted
      else Ip_invalid)"

text \<open>One pass of the loop of \<^verbatim>\<open>_edit_source\<close>; an empty answer keeps the address.\<close>

definition edit_source_ip_step :: "pyval set \<Rightarrow> string \<Rightarrow> ip_answer" where
  "edit_source_ip_step ips new_ip =
     (if new_ip = [] then Ip_kept
      else if PStr new_ip \<in> ips then Ip_in_use
      else if ipv4_ok new_ip then Ip_accepted
      else Ip_invalid)"

section \<open>Example data\<close>

text \<open>
  An environment in which every folder exists and is writable, the HEC endpoint answers
  with the given outcome and saving the registry succeeds or fails as given.
\<close>

definition example_env :: "http_outcome \<Rightarrow> bool \<Rightarrow> env" where
  "example_env outcome saved =
     \<lparr> DEFAULT_UDP_PROTOCOL = PStr ''UDP'',
       DEFAULT_HEC_BATCH_SIZE = PInt 500,
       DEFAULT_FOLDER_BATCH_SIZE = PInt 5000,
       uuid4 = ''3f2b8c1e-5d47-4a6b-9c0d-7e1f2a3b4c5d'',
       time_now = 1700000000,
       path_exists = (\<lambda>_. Inr True),
       makedirs = (\<lambda>_. None),
       write_test = (\<lambda>_. None),
       requests_post = (\<lambda>_. outcome),
       save_sources = (\<lambda>_. saved) \<rparr>"

text \<open>
  The dictionary \<^verbatim>\<open>_add_source\<close> builds for a folder target, with the given spelling of
  the target kind and, optionally, a batch size.
\<close>

definition folder_source :: "string \<Rightarrow> pyval option \<Rightarrow> source_data" where
  "folder_source kind batch =
     (\<lambda>k. if k = ''batch_size'' then batch
          else [''source_name'' \<mapsto> PStr ''firewall'',
                ''source_ip'' \<mapsto> PStr ''10.0.0.5'',
                ''listener_port'' \<mapsto> PInt 514,
                ''protocol'' \<mapsto> PStr ''UDP'',
                ''target_type'' \<mapsto> PStr kind,
                ''folder_path'' \<mapsto> PStr ''/var/log/collector''] k)"

text \<open>A source with an HEC target, listening on the given port.\<close>

definition hec_source :: "pyval \<Rightarrow> source_data" where
  "hec_source port =
     [''source_name'' \<mapsto> PStr ''router'',
      ''source_ip'' \<mapsto> PStr ''10.0.0.5'',
      ''listener_port'' \<mapsto> port,
      ''protocol'' \<mapsto> PStr ''UDP'',
      ''target_type'' \<mapsto> PStr ''HEC'',
      ''hec_url'' \<mapsto> PStr ''https://siem.example:8088/services/collector'',
      ''hec_token'' \<mapsto> PStr ''s3cr3t'',
      ''batch_size'' \<mapsto> PInt 500]"

definition example_id :: string where
  "example_id = ''11111111-2222-4333-8444-555555555555''"

text \<open>A registry that holds one source, the HEC source on port 514.\<close>

definition example_registry :: registry where
  "example_registry = [example_id \<mapsto> hec_source (PInt 514)]"

text \<open>A configured health check with the given token.\<close>

definition example_health_check :: "string \<Rightarrow> health_check" where
  "example_health_check token =
     \<lparr> config = Some [''hec_url'' \<mapsto> PStr ''https://siem.example:8088/services/collector'',
                      ''hec_token'' \<mapsto> PStr token,
                      ''interval'' \<mapsto> PInt 60],
       running = True \<rparr>"

section \<open>Properties of \<^verbatim>\<open>int\<close> and \<^verbatim>\<open>str\<close>\<close>

text \<open>
  Parsing the decimal rendering of an integer gives the integer back, so every integer
  has a string that \<^verbatim>\<open>int\<close> reads as it.
\<close>

lemma digit_char_is_digit: "k < 10 \<Longrightarrow> is_digit (''0123456789'' ! k)"
  unfolding is_digit_def by (rule nth_mem) simp

lemma digit_char_val: "k < 10 \<Longrightarrow> digit_val (''0123456789'' ! k) = k"
proof -
  assume "k < 10"
  then have "k = 0 \<or> k = 1 \<or> k = 2 \<or> k = 3 \<or> k = 4 \<or> k = 5 \<or> k = 6
    \<or> k = 7 \<or> k = 8 \<or> k = 9" by arith
  then show ?thesis by (elim disjE) (simp_all add: digit_val_def)
qed

lemma is_digit_not_space: "is_digit c \<Longrightarrow> \<not> is_space c"
  by (auto simp add: is_digit_def is_space_def)

lemma is_digit_not_sign: "is_digit c \<Longrightarrow> c \<noteq> CHR ''-'' \<and> c \<noteq> CHR ''+''"
  by (auto simp add: is_digit_def)

lemma str_nat_digits: "list_all is_digit (str_nat n)"
proof (induction n rule: str_nat.induct)
  case (1 n)
  show ?case
  proof (cases "n < 10")
    case True
    then show ?thesis by (simp add: str_nat.simps [of n] digit_char_is_digit)
  next
    case False
    then show ?thesis using 1 by (simp add: str_nat.simps [of n] digit_char_is_digit)
  qed
qed

lemma str_nat_not_Nil: "str_nat n \<noteq> []"
  by (simp add: str_nat.simps [of n])

lemma digits_val_all_digits:
  "list_all is_digit ds \<Longrightarrow>
     digits_val acc ds = Some (foldl (\<lambda>a c. 10 * a + digit_val c) acc ds)"
  by (induction acc ds rule: digits_val.induct) simp_all

lemma parse_digits_all_digits:
  "ds \<noteq> [] \<Longrightarrow> list_all is_digit ds \<Longrightarrow>
     parse_digits ds = Some (foldl (\<lambda>a c. 10 * a + digit_val c) 0 ds)"
  by (cases ds) (simp_all add: parse_digits_def digits_val_all_digits)

lemma foldl_str_nat: "foldl (\<lambda>a c. 10 * a + digit_val c) 0 (str_nat n) = n"
proof (induction n rule: str_nat.induct)
  case (1 n)
  show ?case
  proof (cases "n < 10")
    case True
    then show ?thesis by (simp add: str_nat.simps [of n] digit_char_val)
  next
    case False
    then show ?thesis using 1 by (simp add: str_nat.simps [of n] digit_char_val)
  qed
qed

lemma parse_digits_str_nat: "parse_digits (str_nat n) = Some n"
  by (simp add: parse_digits_all_digits str_nat_not_Nil str_nat_digits foldl_str_nat)

lemma strip_no_space:
  assumes "s \<noteq> []" and "\<not> is_space (hd s)" and "\<not> is_space (last s)"
  shows "strip s = s"
proof -
  have "dropWhile is_space s = s"
    using assms by (simp add: dropWhile_eq_self_iff)
  moreover have "dropWhile is_space (rev s) = rev s"
    using assms by (simp add: dropWhile_eq_self_iff hd_rev)
  ultimately show ?thesis by (simp add: strip_def)
qed

lemma str_nat_hd_last: "is_digit (hd (str_nat n)) \<and> is_digit (last (str_nat n))"
  using str_nat_digits [of n] str_nat_not_Nil [of n]
  by (simp add: list_all_iff)

lemma strip_str_nat: "strip (str_nat n) = str_nat n"
  using str_nat_hd_last [of n] by (simp add: strip_no_space str_nat_not_Nil is_digit_not_space)

lemma parse_int_str_nat: "parse_int (str_nat n) = Some (int n)"
proof -
  obtain c cs where s: "str_nat n = c # cs"
    using str_nat_not_Nil [of n] by (cases "str_nat n") auto
  then have "is_digit c" using str_nat_hd_last [of n] by simp
  then have c: "c \<noteq> CHR ''-''" "c \<noteq> CHR ''+''" using is_digit_not_sign by auto
  have st: "strip (c # cs) = c # cs" using strip_str_nat [of n] by (simp add: s)
  have pd: "parse_digits (c # cs) = Some n" using parse_digits_str_nat [of n] by (simp add: s)
  have "parse_int (c # cs) = Some (int n)"
    by (simp add: parse_int_def st c pd)
  then show ?thesis by (simp add: s)
qed

lemma parse_int_str_int: "parse_int (str_int i) = Some i"
proof (cases "i < 0")
  case False
  then show ?thesis by (simp add: str_int_def parse_int_str_nat)
next
  case True
  let ?ds = "str_nat (nat (- i))"
  have l: "last (CHR ''-'' # ?ds) = last ?ds"
    by (simp add: str_nat_not_Nil)
  have "\<not> is_space (last ?ds)"
    using str_nat_hd_last [of "nat (- i)"] by (simp add: is_digit_not_space)
  then have a: "\<not> is_space (last (CHR ''-'' # ?ds))" unfolding l .
  have b: "\<not> is_space (hd (CHR ''-'' # ?ds))" by (simp add: is_space_def)
  have st: "strip (CHR ''-'' # ?ds) = CHR ''-'' # ?ds"
    by (rule strip_no_space [OF _ b a]) simp
  have "parse_int (CHR ''-'' # ?ds) = Some (- int (nat (- i)))"
    by (simp add: parse_int_def st parse_digits_str_nat)
  then show ?thesis
    using True by (simp add: str_int_def)
qed

text \<open>
  Whitespace around the decimal string of a number is dropped, a port number up to 65535
  stays below the digit limit, and a string that is empty or holds a character other than
  a digit, whitespace, a sign or an underscore is not parsed.
\<close>

lemma strip_padded:
  assumes "list_all is_space lpad" and "list_all is_space rpad"
    and "t \<noteq> []" and "\<not> is_space (hd t)" and "\<not> is_space (last t)"
  shows "strip (lpad @ t @ rpad) = t"
proof -
  have "dropWhile is_space (lpad @ t @ rpad) = dropWhile is_space (t @ rpad)"
    by (rule dropWhile_append2) (use assms(1) in \<open>simp add: list_all_iff\<close>)
  also have "\<dots> = t @ rpad"
    using assms(3,4) by (cases t) simp_all
  finally have a: "dropWhile is_space (lpad @ t @ rpad) = t @ rpad" .
  have "dropWhile is_space (rev rpad @ rev t) = dropWhile is_space (rev t)"
    by (rule dropWhile_append2) (use assms(2) in \<open>simp add: list_all_iff\<close>)
  also have "\<dots> = rev t"
    using assms(3,5) by (simp add: dropWhile_eq_self_iff hd_rev)
  finally have b: "dropWhile is_space (rev (t @ rpad)) = rev t" by simp
  show ?thesis by (simp only: strip_def a b rev_rev_ident)
qed

lemma parse_int_strip_eq: "strip s = strip t \<Longrightarrow> parse_int s = parse_int t"
  by (simp add: parse_int_def)

lemma parse_int_padded:
  assumes "list_all is_space lpad" and "list_all is_space rpad"
  shows "parse_int (lpad @ str_nat n @ rpad) = Some (int n)"
proof -
  have "strip (lpad @ str_nat n @ rpad) = str_nat n"
    using assms str_nat_hd_last [of n]
    by (intro strip_padded) (simp_all add: str_nat_not_Nil is_digit_not_space)
  then have "strip (lpad @ str_nat n @ rpad) = strip (str_nat n)"
    by (simp add: strip_str_nat)
  then show ?thesis
    using parse_int_strip_eq parse_int_str_nat by metis
qed

lemma digits_padded:
  assumes "list_all is_space lpad" and "list_all is_space rpad"
  shows "filter is_digit (lpad @ str_nat n @ rpad) = str_nat n"
proof -
  have "filter is_digit lpad = []" "filter is_digit rpad = []"
    using assms is_digit_not_space by (auto simp add: list_all_iff filter_empty_conv)
  moreover have "filter is_digit (str_nat n) = str_nat n"
    using str_nat_digits [of n] by (simp add: list_all_iff)
  ultimately show ?thesis by simp
qed

lemma str_nat_length: "0 < k \<Longrightarrow> n < 10 ^ k \<Longrightarrow> length (str_nat n) \<le> k"
proof (induction k arbitrary: n)
  case 0
  then show ?case by simp
next
  case (Suc k)
  show ?case
  proof (cases "n < 10")
    case True
    then show ?thesis by (simp add: str_nat.simps [of n])
  next
    case False
    with Suc.prems have k: "0 < k" by (cases k) simp_all
    from Suc.prems have "n div 10 < 10 ^ k" by (simp add: less_mult_imp_div_less mult.commute)
    with Suc.IH k have "length (str_nat (n div 10)) \<le> k" by blast
    with False show ?thesis by (simp add: str_nat.simps [of n])
  qed
qed

lemma py_int_port_string:
  assumes "1 \<le> port" and "port \<le> 65535"
    and "list_all is_space lpad" and "list_all is_space rpad"
  shows "py_int (PStr (lpad @ str_int port @ rpad)) = IntOk port"
proof -
  have s: "str_int port = str_nat (nat port)"
    using assms(1) by (simp add: str_int_def)
  have "nat port < 10 ^ 5" using assms(2) by simp
  then have "length (str_nat (nat port)) \<le> 5" by (intro str_nat_length) simp_all
  then have "length (filter is_digit (lpad @ str_nat (nat port) @ rpad)) \<le> 5"
    by (simp only: digits_padded [OF assms(3,4)])
  then have "\<not> exceeds_digit_limit (lpad @ str_nat (nat port) @ rpad)"
    unfolding exceeds_digit_limit_def int_max_str_digits_def by linarith
  moreover have "parse_int (lpad @ str_nat (nat port) @ rpad) = Some port"
    using parse_int_padded [OF assms(3,4), of "nat port"] assms(1) by simp
  ultimately show ?thesis by (simp add: s)
qed

lemma digits_val_chars:
  "digits_val acc ds = Some n \<Longrightarrow> c \<in> set ds \<Longrightarrow> is_digit c \<or> c = CHR ''_''"
  by (induction acc ds rule: digits_val.induct) (auto split: if_splits)

lemma parse_digits_chars:
  "parse_digits ds = Some n \<Longrightarrow> c \<in> set ds \<Longrightarrow> is_digit c \<or> c = CHR ''_''"
  by (cases ds) (auto simp add: parse_digits_def split: if_splits dest: digits_val_chars)

lemma dropWhile_keeps: "c \<in> set s \<Longrightarrow> \<not> P c \<Longrightarrow> c \<in> set (dropWhile P s)"
proof -
  assume c: "c \<in> set s" and n: "\<not> P c"
  have "set s = set (takeWhile P s) \<union> set (dropWhile P s)"
    by (metis set_append takeWhile_dropWhile_id)
  moreover have "c \<notin> set (takeWhile P s)" using n by (auto dest: set_takeWhileD)
  ultimately show ?thesis using c by blast
qed

lemma strip_keeps: "c \<in> set s \<Longrightarrow> \<not> is_space c \<Longrightarrow> c \<in> set (strip s)"
proof -
  assume c: "c \<in> set s" and n: "\<not> is_space c"
  then have "c \<in> set (rev (dropWhile is_space s))" by (simp add: dropWhile_keeps)
  then have "c \<in> set (dropWhile is_space (rev (dropWhile is_space s)))"
    using n by (rule dropWhile_keeps)
  then show ?thesis by (simp add: strip_def)
qed

lemma parse_int_chars:
  assumes "parse_int s = Some i" and "c \<in> set s"
  shows "is_digit c \<or> is_space c \<or> c \<in> set ''+-_''"
proof (cases "is_space c")
  case True
  then show ?thesis by simp
next
  case False
  with assms(2) have m: "c \<in> set (strip s)" by (simp add: strip_keeps)
  obtain x xs where st: "strip s = x # xs"
    using assms(1) by (cases "strip s") (simp_all add: parse_int_def)
  show ?thesis
  proof (cases "x = CHR ''-'' \<or> x = CHR ''+''")
    case True
    then obtain n where "parse_digits xs = Some n"
      using assms(1) by (auto simp add: parse_int_def st)
    then show ?thesis using m True parse_digits_chars [of xs n c] by (auto simp add: st)
  next
    case False
    then obtain n where "parse_digits (x # xs) = Some n"
      using assms(1) by (auto simp add: parse_int_def st)
    then show ?thesis using m parse_digits_chars [of "x # xs" n c] by (auto simp add: st)
  qed
qed

lemma py_int_bad_string:
  "s = [] \<or> (c \<in> set s \<and> \<not> is_digit c \<and> \<not> is_space c \<and> c \<notin> set ''+-_'')
   \<Longrightarrow> py_int (PStr s) = IntValueError"
proof (cases "parse_int s")
  case None
  then show ?thesis by simp
next
  case (Some i)
  assume "s = [] \<or> (c \<in> set s \<and> \<not> is_digit c \<and> \<not> is_space c \<and> c \<notin> set ''+-_'')"
  moreover have "s \<noteq> []" using Some by (auto simp add: parse_int_def strip_def)
  ultimately show ?thesis using parse_int_chars [OF Some, of c] by blast
qed

section \<open>The checks of \<^verbatim>\<open>validate_source\<close>, one after the other\<close>

lemma missing_field_None_iff:
  "missing_field sd = None \<longleftrightarrow>
     sd ''source_name'' \<noteq> None \<and> sd ''source_ip'' \<noteq> None \<and>
     sd ''listener_port'' \<noteq> None \<and> sd ''target_type'' \<noteq> None"
  by (simp add: missing_field_def required_fields_def)

lemma validate_source_fields_present:
  "missing_field sd = None \<Longrightarrow> validate_source e sd = validate_port e sd"
  by (simp add: validate_source_def)

lemma validate_port_in_range:
  "sd ''listener_port'' = Some v \<Longrightarrow> py_int v = IntOk port \<Longrightarrow> 1 \<le> port \<Longrightarrow> port \<le> 65535
   \<Longrightarrow> validate_port e sd = validate_protocol e sd"
  by (simp add: validate_port_def)

lemma validate_protocol_ok:
  "sd ''protocol'' = Some (PStr ''UDP'') \<or> sd ''protocol'' = Some (PStr ''TCP'')
   \<Longrightarrow> validate_protocol e sd = validate_target e sd"
  by (auto simp add: validate_protocol_def)

lemma example_valid:
  "validate_source (example_env (HttpResponse 200) saved) (hec_source (PInt 514)) = Inr Valid"
  by (simp add: validate_source_def missing_field_def required_fields_def hec_source_def
      validate_port_def validate_protocol_def validate_target_def validate_hec_def
      example_env_def)

lemma example_defaults:
  "set_defaults e (hec_source (PInt 514)) = hec_source (PInt 514)"
  by (simp add: set_defaults_def set_default_protocol_def set_default_batch_size_def
      hec_source_def)

section \<open>Target kinds\<close>

text \<open>
  The registry spells the folder kind \<^verbatim>\<open>Folder\<close>: with that spelling a source whose
  folder exists and is writable is valid.
\<close>

lemma validate_source_accepts_Folder:
  "validate_source (example_env outcome saved) (folder_source ''Folder'' (Some (PInt 5000)))
     = Inr Valid"
  by (simp add: validate_source_def missing_field_def required_fields_def folder_source_def
      validate_port_def validate_protocol_def validate_target_def validate_folder_def
      example_env_def)

text \<open>
  Claim C1 says that a source of the folder kind \<^verbatim>\<open>FOLDER\<close>, the value the menu stores,
  with its required fields and a writable folder is valid. The registry rejects it: the
  dictionary the menu builds for a folder target is answered with the target-type error,
  in every environment, so also when the folder is writable.
\<close>

theorem validate_source_rejects_FOLDER:
  "validate_source e (folder_source ''FOLDER'' (Some (PInt 5000)))
     = Inr (Invalid ''Target type must be either Folder or HEC'')"
  by (simp add: validate_source_def missing_field_def required_fields_def folder_source_def
      validate_port_def validate_protocol_def validate_target_def)

section \<open>The HEC connection test\<close>

text \<open>
  Claim C2 says that the connection test succeeds for every 2xx status. It does not: a
  source with every field in order, whose endpoint answers 201, is invalid.
\<close>

theorem validate_source_status_201_counterexample:
  "validate_source (example_env (HttpResponse 201) True) (hec_source (PInt 514))
     = Inr (Invalid ''HEC connection test failed with status code: 201'')"
  by (simp add: validate_source_def missing_field_def required_fields_def hec_source_def
      validate_port_def validate_protocol_def validate_target_def validate_hec_def
      example_env_def str_int_def str_nat.simps)

text \<open>
  Claim C2 as amended: for a source of kind \<^verbatim>\<open>HEC\<close> that has its required fields, a port
  in range, a protocol, a URL and a token, validation passes exactly when the post
  answers with status 200; every other status gives the status-code error and every
  exception raised by the post gives the connection error with its message.
\<close>

theorem validate_source_hec_status_200:
  assumes "missing_field sd = None"
    and "sd ''listener_port'' = Some v" and "py_int v = IntOk port"
    and "1 \<le> port" and "port \<le> 65535"
    and "sd ''protocol'' = Some (PStr ''UDP'') \<or> sd ''protocol'' = Some (PStr ''TCP'')"
    and "sd ''target_type'' = Some (PStr ''HEC'')"
    and "sd ''source_name'' = Some name"
    and "sd ''hec_url'' = Some url" and "sd ''hec_token'' = Some token"
  shows "(validate_source e sd = Inr Valid
            \<longleftrightarrow> requests_post e (test_event e name url token) = HttpResponse 200)
       \<and> (\<forall>status. requests_post e (test_event e name url token) = HttpResponse status
                     \<and> status \<noteq> 200
            \<longrightarrow> validate_source e sd
                  = Inr (Invalid (''HEC connection test failed with status code: ''
                                  @ str_int status)))
       \<and> (\<forall>msg. requests_post e (test_event e name url token) = HttpException msg
            \<longrightarrow> validate_source e sd = Inr (Invalid (''HEC connection test failed: '' @ msg)))"
proof -
  have "validate_source e sd = validate_hec e sd"
    using assms
    by (simp add: validate_source_fields_present validate_port_in_range validate_protocol_ok
        validate_target_def)
  then show ?thesis
    using assms(8-10) by (simp add: validate_hec_def split: http_outcome.splits)
qed

text \<open>
  Witness for claim C2: the example source against an endpoint that answers 200, one
  that answers 204 and one that cannot be reached.
\<close>

theorem validate_source_hec_status_200_witness:
  "validate_source (example_env (HttpResponse 200) True) (hec_source (PInt 514)) = Inr Valid
   \<and> validate_source (example_env (HttpResponse 204) True) (hec_source (PInt 514))
       = Inr (Invalid (''HEC connection test failed with status code: '' @ str_int 204))
   \<and> validate_source (example_env (HttpException ''timed out'') True) (hec_source (PInt 514))
       = Inr (Invalid ''HEC connection test failed: timed out'')"
proof -
  have f: "missing_field (hec_source (PInt 514)) = None"
    by (simp add: missing_field_def required_fields_def hec_source_def)
  have p: "hec_source (PInt 514) ''listener_port'' = Some (PInt 514)"
    by (simp add: hec_source_def)
  have i: "py_int (PInt 514) = IntOk 514" by simp
  have pr: "hec_source (PInt 514) ''protocol'' = Some (PStr ''UDP'')
            \<or> hec_source (PInt 514) ''protocol'' = Some (PStr ''TCP'')"
    by (simp add: hec_source_def)
  have t: "hec_source (PInt 514) ''target_type'' = Some (PStr ''HEC'')"
    by (simp add: hec_source_def)
  have n: "hec_source (PInt 514) ''source_name'' = Some (PStr ''router'')"
    by (simp add: hec_source_def)
  have u: "hec_source (PInt 514) ''hec_url''
             = Some (PStr ''https://siem.example:8088/services/collector'')"
    by (simp add: hec_source_def)
  have k: "hec_source (PInt 514) ''hec_token'' = Some (PStr ''s3cr3t'')"
    by (simp add: hec_source_def)
  note th = validate_source_hec_status_200 [OF f p i _ _ pr t n u k, simplified]
  show ?thesis
    using th [of "example_env (HttpResponse 200) True"]
      th [of "example_env (HttpResponse 204) True"]
      th [of "example_env (HttpException ''timed out'') True"]
    by (simp add: example_env_def)
qed

section \<open>The token on the screen\<close>

text \<open>
  The detail view of a source and the health-check configuration view write ten
  asterisks in place of the token: two runs that differ in the stored token only write
  the same text.
\<close>

lemma manage_source_view_redacts:
  "manage_source_view (sources(source_id \<mapsto> source(''hec_token'' \<mapsto> t1))) source_id
     = manage_source_view (sources(source_id \<mapsto> source(''hec_token'' \<mapsto> t2))) source_id"
  by (simp add: manage_source_view_def get_source_def manage_source_prints_def
      target_prints_def print_field_def getitem_def)

lemma configure_health_check_view_redacts:
  "configure_health_check_view \<lparr>config = Some (cfg(''hec_token'' \<mapsto> t1)), running = r\<rparr>
     = configure_health_check_view \<lparr>config = Some (cfg(''hec_token'' \<mapsto> t2)), running = r\<rparr>"
  by (simp add: configure_health_check_view_def configure_health_check_prints_def
      print_field_def getitem_def)

text \<open>
  Claim C3 says that the token never appears in the text of the detail view, the
  health-check view and the reconfiguration prompts. The reconfiguration prompt for the
  token shows the stored token in brackets: two configurations that differ in the token
  only give different prompts.
\<close>

theorem update_health_check_shows_token:
  "update_health_check_prompts (example_health_check ''s3cr3t'') default_interval
     = Inr [''HEC URL [https://siem.example:8088/services/collector]: '',
            ''HEC Token [s3cr3t]: '',
            ''Check Interval in seconds [60]: '']
   \<and> update_health_check_prompts (example_health_check ''hunter2'') default_interval
     = Inr [''HEC URL [https://siem.example:8088/services/collector]: '',
            ''HEC Token [hunter2]: '',
            ''Check Interval in seconds [60]: '']"
  by (simp add: update_health_check_prompts_def example_health_check_def getitem_def
      hec_url_prompt_def hec_token_prompt_def interval_prompt_def bracketed_def str_int_def
      str_nat.simps)

section \<open>Faults\<close>

text \<open>
  Claim C4 says that \<^verbatim>\<open>validate_source\<close>, and with it \<^verbatim>\<open>add_source\<close>, returns a result
  dictionary for every source dictionary, wrongly typed values included. A listener port
  of \<^verbatim>\<open>None\<close> makes \<^verbatim>\<open>int\<close> raise \<^verbatim>\<open>TypeError\<close>, which the handler for \<^verbatim>\<open>ValueError\<close>
  does not catch: the exception leaves both functions.
\<close>

theorem validate_source_None_port_raises:
  "validate_source e (hec_source PNone) = Inl TypeError
   \<and> fst (add_source e sources (hec_source PNone)) = Inl TypeError"
  by (simp add: add_source_def set_defaults_def set_default_protocol_def
      set_default_batch_size_def validate_source_def missing_field_def required_fields_def
      hec_source_def validate_port_def Let_def)

section \<open>No uniqueness across sources\<close>

text \<open>
  Claim C5: in whatever state the registry is, a source that passes validation is added
  (given that the registry can be saved), so also when an existing source has the same
  address, port and protocol; it is the address prompts of the menu that turn down an
  address already in the registry.
\<close>

theorem add_source_no_uniqueness:
  assumes "validate_source e (set_defaults e sd) = Inr Valid"
    and "save_sources e (sources(uuid4 e \<mapsto> set_defaults e sd))"
  shows "add_source e sources sd
           = (Inr (SuccessId (uuid4 e)), sources(uuid4 e \<mapsto> set_defaults e sd))
       \<and> (\<forall>ips ip. existing_ips sources = Inr ips \<and> PStr ip \<in> ips
            \<longrightarrow> add_source_ip_step ips ip = Ip_in_use)
       \<and> (\<forall>source_id ips ip. existing_ips_except sources source_id = Inr ips \<and> PStr ip \<in> ips
                \<and> ip \<noteq> []
            \<longrightarrow> edit_source_ip_step ips ip = Ip_in_use)"
  using assms by (simp add: add_source_def Let_def add_source_ip_step_def edit_source_ip_step_def)

text \<open>
  Witness for claim C5: the registry holds the example source; the same source (same
  address, port and protocol) is added a second time, while the menu's prompt turns its
  address down.
\<close>

theorem add_source_no_uniqueness_witness:
  "add_source (example_env (HttpResponse 200) True) example_registry (hec_source (PInt 514))
     = (Inr (SuccessId ''3f2b8c1e-5d47-4a6b-9c0d-7e1f2a3b4c5d''),
        example_registry(''3f2b8c1e-5d47-4a6b-9c0d-7e1f2a3b4c5d'' \<mapsto> hec_source (PInt 514)))
   \<and> example_registry example_id = Some (hec_source (PInt 514))
   \<and> existing_ips example_registry = Inr {PStr ''10.0.0.5''}
   \<and> add_source_ip_step {PStr ''10.0.0.5''} ''10.0.0.5'' = Ip_in_use"
proof -
  let ?e = "example_env (HttpResponse 200) True"
  have a: "validate_source ?e (set_defaults ?e (hec_source (PInt 514))) = Inr Valid"
    unfolding example_defaults by (rule example_valid)
  have b: "save_sources ?e
             (example_registry(uuid4 ?e \<mapsto> set_defaults ?e (hec_source (PInt 514))))"
    by (simp add: example_env_def)
  have u: "uuid4 ?e = ''3f2b8c1e-5d47-4a6b-9c0d-7e1f2a3b4c5d''"
    by (simp add: example_env_def)
  have x: "existing_ips example_registry = Inr {PStr ''10.0.0.5''}"
    by (auto simp add: existing_ips_def example_registry_def hec_source_def)
  have r: "example_registry example_id = Some (hec_source (PInt 514))"
    by (simp add: example_registry_def)
  show ?thesis
    using add_source_no_uniqueness [where sources = example_registry, OF a b] x r
    unfolding example_defaults u by simp
qed

section \<open>The port range\<close>

text \<open>
  Claim C6 says that every source whose listener port does not parse as an integer, or
  parses to one below 1 or above 65535, is answered with the port error. It is not: the
  required fields are checked first, so a source without a name whose port is \<^verbatim>\<open>51x\<close>
  gets the missing-field error; and a port of \<^verbatim>\<open>None\<close> is not answered at all, since
  \<^verbatim>\<open>int\<close> raises \<^verbatim>\<open>TypeError\<close>.
\<close>

theorem validate_source_port_range_counterexample:
  "validate_source (example_env (HttpResponse 200) True)
       ((hec_source (PStr ''51x'')) (''source_name'' := None))
     = Inr (Invalid ''Missing required field: source_name'')
   \<and> validate_source (example_env (HttpResponse 200) True) (hec_source PNone)
     = Inl TypeError"
  by (simp add: validate_source_def missing_field_def required_fields_def hec_source_def
      validate_port_def)

text \<open>
  Claim C6 as amended: for a source that has its four required fields, a listener port
  on which \<^verbatim>\<open>int\<close> raises \<^verbatim>\<open>ValueError\<close> gives the not-a-number error (so every
  string that is empty or holds a character other than a digit, whitespace, a sign or an
  underscore), one that \<^verbatim>\<open>int\<close> reads as an integer below 1 or above 65535 gives the
  range error, and one that \<^verbatim>\<open>int\<close> reads as an integer from 1 to 65535 passes the port
  check, the result being that of the remaining checks (so every integer in the range,
  and its decimal string with or without whitespace around it). A port on which \<^verbatim>\<open>int\<close>
  raises \<^verbatim>\<open>TypeError\<close> is left out.
\<close>

theorem validate_source_port_range:
  assumes "missing_field sd = None" and "sd ''listener_port'' = Some v"
  shows "(py_int v = IntValueError
            \<longrightarrow> validate_source e sd = Inr (Invalid ''Listener port must be a valid number''))
       \<and> (py_int v = IntOk port \<and> (port < 1 \<or> 65535 < port)
            \<longrightarrow> validate_source e sd
                  = Inr (Invalid ''Listener port must be between 1 and 65535''))
       \<and> (py_int v = IntOk port \<and> 1 \<le> port \<and> port \<le> 65535
            \<longrightarrow> validate_source e sd = validate_protocol e sd)
       \<and> (v = PStr s
             \<and> (s = [] \<or> (c \<in> set s \<and> \<not> is_digit c \<and> \<not> is_space c \<and> c \<notin> set ''+-_''))
            \<longrightarrow> validate_source e sd = Inr (Invalid ''Listener port must be a valid number''))
       \<and> (1 \<le> port \<and> port \<le> 65535 \<and> list_all is_space lpad \<and> list_all is_space rpad
             \<and> (v = PInt port \<or> v = PStr (lpad @ str_int port @ rpad))
            \<longrightarrow> validate_source e sd = validate_protocol e sd)"
proof -
  have vs: "validate_source e sd = validate_port e sd"
    using assms(1) by (rule validate_source_fields_present)
  have 1: "py_int v = IntValueError
            \<longrightarrow> validate_source e sd = Inr (Invalid ''Listener port must be a valid number'')"
    using assms(2) by (simp add: vs validate_port_def)
  have 2: "py_int v = IntOk port \<and> (port < 1 \<or> 65535 < port)
            \<longrightarrow> validate_source e sd
                  = Inr (Invalid ''Listener port must be between 1 and 65535'')"
    using assms(2) by (auto simp add: vs validate_port_def)
  have 3: "py_int v = IntOk port \<and> 1 \<le> port \<and> port \<le> 65535
            \<longrightarrow> validate_source e sd = validate_protocol e sd"
    using assms(2) by (auto simp add: vs validate_port_def)
  have 4: "v = PStr s
             \<and> (s = [] \<or> (c \<in> set s \<and> \<not> is_digit c \<and> \<not> is_space c \<and> c \<notin> set ''+-_''))
            \<longrightarrow> validate_source e sd = Inr (Invalid ''Listener port must be a valid number'')"
    using 1 py_int_bad_string [of s c] by blast
  have 5: "1 \<le> port \<and> port \<le> 65535 \<and> list_all is_space lpad \<and> list_all is_space rpad
             \<and> (v = PInt port \<or> v = PStr (lpad @ str_int port @ rpad))
            \<longrightarrow> validate_source e sd = validate_protocol e sd"
    using 3 py_int_port_string [of port lpad rpad] py_int.simps(3) [of port] by metis
  show ?thesis using 1 2 3 4 5 by blast
qed

text \<open>
  Witness for claim C6: ports that do not parse (a letter, a trailing separator 0x1C),
  ports out of range on either side, and the two ends of the range, one as a string with
  spaces around it and one as an integer.
\<close>

theorem validate_source_port_range_witness:
  "validate_source (example_env (HttpResponse 200) True) (hec_source (PStr ''51x''))
     = Inr (Invalid ''Listener port must be a valid number'')
   \<and> validate_source (example_env (HttpResponse 200) True)
       (hec_source (PStr (''80'' @ [CHR 0x1C])))
     = Inr (Invalid ''Listener port must be a valid number'')
   \<and> validate_source (example_env (HttpResponse 200) True) (hec_source (PStr ''0''))
     = Inr (Invalid ''Listener port must be between 1 and 65535'')
   \<and> validate_source (example_env (HttpResponse 200) True) (hec_source (PInt 65536))
     = Inr (Invalid ''Listener port must be between 1 and 65535'')
   \<and> validate_source (example_env (HttpResponse 200) True) (hec_source (PStr '' 65535 ''))
     = validate_protocol (example_env (HttpResponse 200) True)
         (hec_source (PStr '' 65535 ''))
   \<and> validate_source (example_env (HttpResponse 200) True) (hec_source (PInt 1))
     = validate_protocol (example_env (HttpResponse 200) True) (hec_source (PInt 1))"
proof -
  let ?e = "example_env (HttpResponse 200) True"
  have f: "missing_field (hec_source p) = None" for p
    by (simp add: missing_field_def required_fields_def hec_source_def)
  have p: "hec_source p ''listener_port'' = Some p" for p
    by (simp add: hec_source_def)
  have sp: "list_all is_space '' ''" by (simp add: is_space_def)
  have st: "str_int 65535 = ''65535''" by (simp add: str_int_def str_nat.simps)
  have ev: "py_int (PStr ''0'') = IntOk 0"
    by (simp add: parse_int_def strip_def is_space_def parse_digits_def is_digit_def
        digit_val_def exceeds_digit_limit_def int_max_str_digits_def)
  have bad1: "CHR ''x'' \<in> set ''51x'' \<and> \<not> is_digit CHR ''x'' \<and> \<not> is_space CHR ''x''
                \<and> CHR ''x'' \<notin> set ''+-_''"
    by (simp add: is_digit_def is_space_def)
  have bad2: "CHR 0x1C \<in> set (''80'' @ [CHR 0x1C]) \<and> \<not> is_digit (CHR 0x1C)
                \<and> \<not> is_space (CHR 0x1C) \<and> CHR 0x1C \<notin> set ''+-_''"
    by (simp add: is_digit_def is_space_def)
  show ?thesis
    using
      validate_source_port_range [where sd = "hec_source (PStr ''51x'')"
        and v = "PStr ''51x''" and s = "''51x''" and c = "CHR ''x''" and e = ?e, OF f p]
      validate_source_port_range [where sd = "hec_source (PStr (''80'' @ [CHR 0x1C]))"
        and v = "PStr (''80'' @ [CHR 0x1C])" and s = "''80'' @ [CHR 0x1C]"
        and c = "CHR 0x1C" and e = ?e, OF f p]
      validate_source_port_range [where sd = "hec_source (PStr ''0'')"
        and v = "PStr ''0''" and port = 0 and e = ?e, OF f p]
      validate_source_port_range [where sd = "hec_source (PInt 65536)"
        and v = "PInt 65536" and port = 65536 and e = ?e, OF f p]
      validate_source_port_range [where sd = "hec_source (PStr '' 65535 '')"
        and v = "PStr '' 65535 ''" and port = 65535 and lpad = "'' ''" and rpad = "'' ''"
        and e = ?e, OF f p]
      validate_source_port_range [where sd = "hec_source (PInt 1)"
        and v = "PInt 1" and port = 1 and e = ?e, OF f p]
      bad1 bad2 sp
    by (simp add: ev st del: py_int.simps(4))
qed

section \<open>Defaults\<close>

text \<open>
  \<^verbatim>\<open>add_source\<close> fills in the protocol, and the batch size of the kinds \<^verbatim>\<open>HEC\<close> and
  \<^verbatim>\<open>Folder\<close>.
\<close>

lemma set_defaults_protocol:
  "sd ''protocol'' = None \<Longrightarrow> set_defaults e sd ''protocol'' = Some (DEFAULT_UDP_PROTOCOL e)"
  by (simp add: set_defaults_def set_default_protocol_def set_default_batch_size_def)

lemma set_defaults_HEC_batch_size:
  "sd ''target_type'' = Some (PStr ''HEC'') \<Longrightarrow> sd ''batch_size'' = None
   \<Longrightarrow> set_defaults e sd ''batch_size'' = Some (DEFAULT_HEC_BATCH_SIZE e)"
  by (simp add: set_defaults_def set_default_protocol_def set_default_batch_size_def)

lemma set_defaults_Folder_batch_size:
  "sd ''target_type'' = Some (PStr ''Folder'') \<Longrightarrow> sd ''batch_size'' = None
   \<Longrightarrow> set_defaults e sd ''batch_size'' = Some (DEFAULT_FOLDER_BATCH_SIZE e)"
  by (simp add: set_defaults_def set_default_protocol_def set_default_batch_size_def)

text \<open>
  Claim C7 says that a source of the folder kind that lacks a batch size is given the
  folder default. For the kind \<^verbatim>\<open>FOLDER\<close>, the value the menu stores, no batch size is
  set.
\<close>

theorem set_defaults_FOLDER_no_batch_size:
  "set_defaults e (folder_source ''FOLDER'' None) ''batch_size'' = None"
  by (simp add: set_defaults_def set_default_protocol_def set_default_batch_size_def
      folder_source_def)

section \<open>\<^verbatim>\<open>update_source\<close>\<close>

text \<open>
  Claim C8: when the source exists and the merged dictionary passes validation, the
  stored source afterwards has the values of the update for the keys the update names
  and its previous values for every other key, and every other source of the registry
  is as before.
\<close>

theorem update_source_merge:
  assumes "sources source_id = Some existing"
    and "validate_source e (existing ++ updated_data) = Inr Valid"
  shows "\<exists>stored. snd (update_source e sources source_id updated_data) source_id = Some stored
           \<and> (\<forall>k. k \<in> dom updated_data \<longrightarrow> stored k = updated_data k)
           \<and> (\<forall>k. k \<notin> dom updated_data \<longrightarrow> stored k = existing k)
           \<and> (\<forall>other. other \<noteq> source_id
                \<longrightarrow> snd (update_source e sources source_id updated_data) other
                      = sources other)"
  using assms by (auto simp add: update_source_def Let_def map_add_def split: option.splits)

text \<open>
  Witness for claim C8: the port of the example source is changed; its name stays.
\<close>

theorem update_source_merge_witness:
  "\<exists>stored. snd (update_source (example_env (HttpResponse 200) True) example_registry
                   example_id [''listener_port'' \<mapsto> PInt 1514]) example_id = Some stored
     \<and> stored ''listener_port'' = Some (PInt 1514)
     \<and> stored ''source_name'' = Some (PStr ''router'')"
proof -
  let ?upd = "[''listener_port'' \<mapsto> PInt 1514]"
  have a: "example_registry example_id = Some (hec_source (PInt 514))"
    by (simp add: example_registry_def)
  have b: "validate_source (example_env (HttpResponse 200) True)
             (hec_source (PInt 514) ++ ?upd) = Inr Valid"
    by (simp add: validate_source_def missing_field_def required_fields_def hec_source_def
        validate_port_def validate_protocol_def validate_target_def validate_hec_def
        example_env_def)
  from update_source_merge [where sources = example_registry and source_id = example_id,
      OF a b]
  obtain stored where
    s: "snd (update_source (example_env (HttpResponse 200) True) example_registry
               example_id ?upd) example_id = Some stored"
    and u: "\<forall>k. k \<in> dom ?upd \<longrightarrow> stored k = ?upd k"
    and o: "\<forall>k. k \<notin> dom ?upd \<longrightarrow> stored k = hec_source (PInt 514) k"
    by blast
  from u have "stored ''listener_port'' = Some (PInt 1514)" by simp
  moreover from o have "stored ''source_name'' = Some (PStr ''router'')"
    by (simp add: hec_source_def)
  ultimately show ?thesis using s by blast
qed

text \<open>
  Claim C9: when the source exists and the merged dictionary fails validation,
  \<^verbatim>\<open>update_source\<close> returns the failure with the validation error and the registry's map
  is what it was.
\<close>

theorem update_source_atomic:
  assumes "sources source_id = Some existing"
    and "validate_source e (existing ++ updated_data) = Inr (Invalid msg)"
  shows "update_source e sources source_id updated_data = (Inr (Failure msg), sources)"
  using assms by (simp add: update_source_def Let_def)

text \<open>
  Witness for claim C9: an update of the example source to port 70000 is refused and
  leaves the registry as it was.
\<close>

theorem update_source_atomic_witness:
  "update_source (example_env (HttpResponse 200) True) example_registry example_id
     [''listener_port'' \<mapsto> PInt 70000]
   = (Inr (Failure ''Listener port must be between 1 and 65535''), example_registry)"
proof -
  have a: "example_registry example_id = Some (hec_source (PInt 514))"
    by (simp add: example_registry_def)
  have b: "validate_source (example_env (HttpResponse 200) True)
             (hec_source (PInt 514) ++ [''listener_port'' \<mapsto> PInt 70000])
           = Inr (Invalid ''Listener port must be between 1 and 65535'')"
    by (simp add: validate_source_def missing_field_def required_fields_def hec_source_def
        validate_port_def)
  show ?thesis
    by (rule update_source_atomic [where sources = example_registry
          and source_id = example_id, OF a b])
qed

section \<open>\<^verbatim>\<open>add_source\<close> when saving fails\<close>

text \<open>
  Claim C10: when the source passes validation and saving the registry then fails,
  \<^verbatim>\<open>add_source\<close> returns the failure, and the new source is in the registry's map all the
  same: \<^verbatim>\<open>get_source\<close> and \<^verbatim>\<open>get_sources\<close> return it.
\<close>

theorem add_source_save_failure:
  assumes "validate_source e (set_defaults e sd) = Inr Valid"
    and "\<not> save_sources e (sources(uuid4 e \<mapsto> set_defaults e sd))"
  shows "fst (add_source e sources sd) = Inr (Failure ''Failed to save source configuration'')
       \<and> get_source (snd (add_source e sources sd)) (uuid4 e) = Some (set_defaults e sd)
       \<and> get_sources (snd (add_source e sources sd)) (uuid4 e) = Some (set_defaults e sd)"
  using assms by (simp add: add_source_def Let_def get_source_def get_sources_def)

text \<open>
  Witness for claim C10: the example source is added to an empty registry that cannot be
  saved.
\<close>

theorem add_source_save_failure_witness:
  "fst (add_source (example_env (HttpResponse 200) False) Map.empty (hec_source (PInt 514)))
     = Inr (Failure ''Failed to save source configuration'')
   \<and> get_source (snd (add_source (example_env (HttpResponse 200) False) Map.empty
                        (hec_source (PInt 514))))
        ''3f2b8c1e-5d47-4a6b-9c0d-7e1f2a3b4c5d'' = Some (hec_source (PInt 514))"
proof -
  let ?e = "example_env (HttpResponse 200) False"
  have a: "validate_source ?e (set_defaults ?e (hec_source (PInt 514))) = Inr Valid"
    unfolding example_defaults by (rule example_valid)
  have b: "\<not> save_sources ?e
               (Map.empty(uuid4 ?e \<mapsto> set_defaults ?e (hec_source (PInt 514))))"
    by (simp add: example_env_def)
  have u: "uuid4 ?e = ''3f2b8c1e-5d47-4a6b-9c0d-7e1f2a3b4c5d''"
    by (simp add: example_env_def)
  show ?thesis
    using add_source_save_failure [where sources = Map.empty, OF a b]
    unfolding example_defaults u by simp
qed

end
